theory Spec2Isabelle
  imports Main "HOL-Library.Multiset"
begin

section \<open>Values thrown, promises, completions\<close>

text \<open>
  A value thrown in JavaScript is either an \<open>Error\<close> object carrying a message or some
  other value; \<open>fetchData\<close> tells the two apart with \<open>instanceof\<close>.
\<close>

datatype thrown = ErrorObj string | OtherThrown string

text \<open>
  What \<open>await\<close> finds in a promise: a value, a rejection, or nothing ever (the prompt
  carries no timeout, so a promise that never settles suspends the handler for good).
\<close>

datatype 'a promise = Resolved 'a | Rejected thrown | Pending

text \<open>
  How the call of a handler ends: it runs to its end (for an async handler: its promise
  fulfils), an exception leaves it, or it stays suspended at an \<open>await\<close>.
\<close>

datatype completion = Completed | Raised thrown | NeverSettles


section \<open>The install prompt: \<open>PWAInstall\<close>\<close>

subsection \<open>Data\<close>

datatype outcome = Accepted | Dismissed

record userChoiceResult =
  outcome :: outcome
  platform :: string

text \<open>
  The interface \<open>BeforeInstallPromptEvent\<close>. The field \<open>prompt\<close> is what awaiting the call
  \<open>prompt()\<close> finds, \<open>defaultPrevented\<close> the flag that \<open>preventDefault()\<close> sets.
\<close>

record BeforeInstallPromptEvent =
  platforms :: "string list"
  userChoice :: "userChoiceResult promise"
  prompt :: "unit promise"
  defaultPrevented :: bool

text \<open>
  The browser's \<open>localStorage\<close>: the stored items, and whether a read or a write throws
  (storage blocked, quota exhausted).
\<close>

record storage =
  items :: "string \<rightharpoonup> string"
  getItem_throws :: "thrown option"
  setItem_throws :: "thrown option"

definition getItem :: "storage \<Rightarrow> string \<Rightarrow> thrown + string option" where
  "getItem ls k = (case getItem_throws ls of Some err \<Rightarrow> Inl err | None \<Rightarrow> Inr (items ls k))"

definition setItem :: "storage \<Rightarrow> string \<Rightarrow> string \<Rightarrow> thrown + storage" where
  "setItem ls k v =
     (case setItem_throws ls of Some err \<Rightarrow> Inl err | None \<Rightarrow> Inr (ls\<lparr>items := (items ls)(k \<mapsto> v)\<rparr>))"

text \<open>JavaScript's truthiness of a \<open>string | null\<close>: \<open>null\<close> and the empty string are falsy.\<close>

definition truthy :: "string option \<Rightarrow> bool" where
  "truthy v = (case v of None \<Rightarrow> False | Some s \<Rightarrow> s \<noteq> [])"

text \<open>The two functions registered on \<open>window\<close>, and the two bound to buttons.\<close>

datatype listener = HandleBeforeInstallPrompt | HandleAppInstalled

datatype handler = HandleInstallClick | HandleDismiss

text \<open>
  What the platform reports at start-up: \<open>window.matchMedia("(display-mode: standalone)").matches\<close>
  and \<open>navigator.standalone\<close>, which is undefined outside iOS.
\<close>

record platform_info =
  matchMedia_standalone :: bool
  navigator_standalone :: "bool option"

text \<open>
  The component's three state variables, with the parts of the browser it touches:
  local storage, the console, the listeners registered on \<open>window\<close>, and the handles
  whose \<open>prompt()\<close> has been called (each call asks the platform for its install dialog).
\<close>

record world =
  deferredPrompt :: "BeforeInstallPromptEvent option"
  showInstallBanner :: bool
  isInstalled :: bool
  localStorage :: storage
  console :: "(string \<times> thrown) list"
  listeners :: "(string \<times> listener) list"
  prompted :: "BeforeInstallPromptEvent list"

subsection \<open>Mounting\<close>

definition initial :: "storage \<Rightarrow> world" where
  "initial ls =
     \<lparr>deferredPrompt = None, showInstallBanner = False, isInstalled = False,
      localStorage = ls, console = [], listeners = [], prompted = []\<rparr>"

definition useEffect :: "platform_info \<Rightarrow> world \<Rightarrow> world" where
  "useEffect p w =
     (let isStandalone = matchMedia_standalone p;
          isInWebAppiOS = (navigator_standalone p = Some True)
      in if isStandalone \<or> isInWebAppiOS then w\<lparr>isInstalled := True\<rparr>
         else w\<lparr>listeners := listeners w @
                  [(''beforeinstallprompt'', HandleBeforeInstallPrompt),
                   (''appinstalled'', HandleAppInstalled)]\<rparr>)"

definition mount :: "platform_info \<Rightarrow> storage \<Rightarrow> world" where
  "mount p ls = useEffect p (initial ls)"

subsection \<open>Handlers\<close>

text \<open>
  A state setter called before an exception leaves the handler has still been queued,
  so the returned world carries its effect.
\<close>

definition handleBeforeInstallPrompt :: "BeforeInstallPromptEvent \<Rightarrow> world \<Rightarrow> completion \<times> world" where
  "handleBeforeInstallPrompt e w =
     (let w1 = w\<lparr>deferredPrompt := Some (e\<lparr>defaultPrevented := True\<rparr>)\<rparr>
      in case getItem (localStorage w1) ''pwa-install-dismissed'' of
           Inl err \<Rightarrow> (Raised err, w1)
         | Inr dismissed \<Rightarrow>
             if \<not> truthy dismissed then (Completed, w1\<lparr>showInstallBanner := True\<rparr>)
             else (Completed, w1))"

definition handleAppInstalled :: "world \<Rightarrow> completion \<times> world" where
  "handleAppInstalled w =
     (Completed, w\<lparr>isInstalled := True, showInstallBanner := False, deferredPrompt := None\<rparr>)"

definition console_error :: "string \<Rightarrow> thrown \<Rightarrow> world \<Rightarrow> world" where
  "console_error msg err w = w\<lparr>console := console w @ [(msg, err)]\<rparr>"

definition handleInstallClick :: "world \<Rightarrow> completion \<times> world" where
  "handleInstallClick w =
     (case deferredPrompt w of
        None \<Rightarrow> (Completed, w)
      | Some dp \<Rightarrow>
          (let w0 = w\<lparr>prompted := prompted w @ [dp]\<rparr>
           in case prompt dp of
                Pending \<Rightarrow> (NeverSettles, w0)
              | Rejected err \<Rightarrow>
                  (Completed, console_error ''Error during PWA installation:'' err w0)
              | Resolved _ \<Rightarrow>
                  (case userChoice dp of
                     Pending \<Rightarrow> (NeverSettles, w0)
                   | Rejected err \<Rightarrow>
                       (Completed, console_error ''Error during PWA installation:'' err w0)
                   | Resolved choice \<Rightarrow>
                       (let w1 = (if outcome choice = Accepted
                                  then w0\<lparr>showInstallBanner := False\<rparr> else w0)
                        in (Completed, w1\<lparr>deferredPrompt := None\<rparr>)))))"

definition handleDismiss :: "world \<Rightarrow> completion \<times> world" where
  "handleDismiss w =
     (let w1 = w\<lparr>showInstallBanner := False\<rparr>
      in case setItem (localStorage w1) ''pwa-install-dismissed'' ''true'' of
           Inl err \<Rightarrow> (Raised err, w1)
         | Inr ls \<Rightarrow> (Completed, w1\<lparr>localStorage := ls\<rparr>))"

subsection \<open>Rendering\<close>

text \<open>The JSX tree, without its class names.\<close>

datatype element =
    Div "element list"
  | DownloadIcon
  | XIcon
  | H3 string
  | P string
  | Text string
  | Button handler "string option" "element list"

definition banner :: element where
  "banner =
     Div [Div [Div [DownloadIcon],
               Div [H3 ''Install BoringCode.dev'',
                    P ''Install our app for quick access to development tools and offline browsing.'',
                    Div [Button HandleInstallClick None [Text ''Install''],
                         Button HandleDismiss None [Text ''Not now'']]],
               Button HandleDismiss (Some ''Dismiss install prompt'') [XIcon]]]"

definition render :: "world \<Rightarrow> element option" where
  "render w =
     (if isInstalled w \<or> \<not> showInstallBanner w \<or> deferredPrompt w = None then None
      else Some banner)"

text \<open>The buttons of a tree, in document order, and the handler a click on one runs.\<close>

fun buttons :: "element \<Rightarrow> element list" where
  "buttons (Div cs) = concat (map buttons cs)"
| "buttons (Button h a cs) = [Button h a cs]"
| "buttons _ = []"

fun onClick :: "element \<Rightarrow> handler option" where
  "onClick (Button h a cs) = Some h"
| "onClick _ = None"

subsection \<open>Events\<close>

text \<open>
  The platform dispatches \<open>beforeinstallprompt\<close> and \<open>appinstalled\<close> on \<open>window\<close>, which
  reach the component only through a registered listener; the user clicks the \<open>i\<close>-th
  button of what is rendered, if anything is. A handler runs to its end before the next
  event is taken.
\<close>

datatype event =
    BeforeInstallPrompt BeforeInstallPromptEvent
  | AppInstalled
  | Click nat

definition call :: "handler \<Rightarrow> world \<Rightarrow> completion \<times> world" where
  "call h w =
     (case h of
        HandleInstallClick \<Rightarrow> handleInstallClick w
      | HandleDismiss \<Rightarrow> handleDismiss w)"

fun step :: "event \<Rightarrow> world \<Rightarrow> world" where
  "step (BeforeInstallPrompt e) w =
     (if (''beforeinstallprompt'', HandleBeforeInstallPrompt) \<in> set (listeners w)
      then snd (handleBeforeInstallPrompt e w) else w)"
| "step AppInstalled w =
     (if (''appinstalled'', HandleAppInstalled) \<in> set (listeners w)
      then snd (handleAppInstalled w) else w)"
| "step (Click i) w =
     (case render w of
        None \<Rightarrow> w
      | Some el \<Rightarrow>
          (if i < length (buttons el)
           then (case onClick (buttons el ! i) of None \<Rightarrow> w | Some h \<Rightarrow> snd (call h w))
           else w))"

definition run :: "event list \<Rightarrow> world \<Rightarrow> world" where
  "run evs w = fold step evs w"

section \<open>The repository browser: \<open>GitHubOrg\<close>\<close>

subsection \<open>Data\<close>

text \<open>
  The interfaces \<open>Repository\<close> and \<open>Organization\<close>. The counts are whole numbers, on
  which the subtraction of the comparator is exact.
\<close>

record Repository =
  repo_id :: int
  name :: string
  description :: "string option"
  html_url :: string
  stargazers_count :: int
  forks_count :: int
  language :: "string option"
  topics :: "string list"
  updated_at :: string
  pushed_at :: string

record Organization =
  login :: string
  org_name :: string
  org_description :: "string option"
  avatar_url :: string
  org_html_url :: string
  public_repos :: int

text \<open>A response of \<open>fetch\<close>: its \<open>ok\<close> flag and what awaiting \<open>json()\<close> finds.\<close>

record 'a response =
  ok :: bool
  json :: "'a promise"

text \<open>What awaiting each of the two \<open>fetch\<close> calls finds.\<close>

record remote =
  org_fetch :: "Organization response promise"
  repos_fetch :: "Repository list response promise"

record GitHubOrg_state =
  org :: "Organization option"
  repos :: "Repository list"
  loading :: bool
  error :: "string option"

subsection \<open>Library functions of JavaScript\<close>

text \<open>\<open>String.prototype.includes\<close>: the pattern occurs at some position of the string.\<close>

fun str_includes :: "string \<Rightarrow> string \<Rightarrow> bool" where
  "str_includes [] pat = (pat = [])"
| "str_includes (c # cs) pat = (take (length pat) (c # cs) = pat \<or> str_includes cs pat)"

text \<open>
  \<open>Array.prototype.sort\<close> with a comparator: \<open>x\<close> goes before \<open>y\<close> when the comparator
  is negative, after it when positive, and elements that compare equal keep their
  order (the sort is stable). A stable insertion sort computes that result.
\<close>

fun insert_by :: "('a \<Rightarrow> 'a \<Rightarrow> int) \<Rightarrow> 'a \<Rightarrow> 'a list \<Rightarrow> 'a list" where
  "insert_by cmp x [] = [x]"
| "insert_by cmp x (y # ys) = (if cmp x y \<le> 0 then x # y # ys else y # insert_by cmp x ys)"

fun sort_by :: "('a \<Rightarrow> 'a \<Rightarrow> int) \<Rightarrow> 'a list \<Rightarrow> 'a list" where
  "sort_by cmp [] = []"
| "sort_by cmp (x # xs) = insert_by cmp x (sort_by cmp xs)"

subsection \<open>Fetching\<close>

definition filteredRepos :: "Repository list \<Rightarrow> Repository list" where
  "filteredRepos reposData =
     sort_by (\<lambda>a b. stargazers_count b - stargazers_count a)
       (filter (\<lambda>repo. \<not> str_includes (name repo) ''.github'') reposData)"

text \<open>The \<open>catch\<close> block followed by the \<open>finally\<close> block.\<close>

definition catch_finally :: "thrown \<Rightarrow> GitHubOrg_state \<Rightarrow> GitHubOrg_state" where
  "catch_finally err s =
     s\<lparr>error := Some (case err of ErrorObj message \<Rightarrow> message | OtherThrown _ \<Rightarrow> ''An error occurred''),
       loading := False\<rparr>"

definition fetchData :: "remote \<Rightarrow> GitHubOrg_state \<Rightarrow> completion \<times> GitHubOrg_state" where
  "fetchData api s =
     (let s1 = s\<lparr>loading := True\<rparr>
      in case org_fetch api of
           Pending \<Rightarrow> (NeverSettles, s1)
         | Rejected err \<Rightarrow> (Completed, catch_finally err s1)
         | Resolved orgResponse \<Rightarrow>
             if \<not> ok orgResponse
             then (Completed, catch_finally (ErrorObj ''Failed to fetch organization'') s1)
             else (case json orgResponse of
                     Pending \<Rightarrow> (NeverSettles, s1)
                   | Rejected err \<Rightarrow> (Completed, catch_finally err s1)
                   | Resolved orgData \<Rightarrow>
                       (let s2 = s1\<lparr>org := Some orgData\<rparr>
                        in case repos_fetch api of
                             Pending \<Rightarrow> (NeverSettles, s2)
                           | Rejected err \<Rightarrow> (Completed, catch_finally err s2)
                           | Resolved reposResponse \<Rightarrow>
                               if \<not> ok reposResponse
                               then (Completed, catch_finally (ErrorObj ''Failed to fetch repositories'') s2)
                               else (case json reposResponse of
                                       Pending \<Rightarrow> (NeverSettles, s2)
                                     | Rejected err \<Rightarrow> (Completed, catch_finally err s2)
                                     | Resolved reposData \<Rightarrow>
                                         (Completed,
                                          s2\<lparr>repos := filteredRepos reposData, loading := False\<rparr>)))))"

definition GitHubOrg_initial :: GitHubOrg_state where
  "GitHubOrg_initial = \<lparr>org = None, repos = [], loading = True, error = None\<rparr>"


section \<open>Concrete inputs\<close>

definition prompt_event :: "outcome \<Rightarrow> BeforeInstallPromptEvent" where
  "prompt_event oc =
     \<lparr>platforms = [''web''], userChoice = Resolved \<lparr>outcome = oc, platform = ''web''\<rparr>,
      prompt = Resolved (), defaultPrevented = False\<rparr>"

definition failing_event :: BeforeInstallPromptEvent where
  "failing_event =
     \<lparr>platforms = [''web''], userChoice = Resolved \<lparr>outcome = Accepted, platform = ''web''\<rparr>,
      prompt = Rejected (ErrorObj ''NotAllowedError''), defaultPrevented = True\<rparr>"

definition empty_storage :: storage where
  "empty_storage = \<lparr>items = Map.empty, getItem_throws = None, setItem_throws = None\<rparr>"

definition full_storage :: storage where
  "full_storage =
     \<lparr>items = Map.empty, getItem_throws = None,
      setItem_throws = Some (ErrorObj ''QuotaExceededError'')\<rparr>"

definition stored :: "string \<Rightarrow> storage" where
  "stored v =
     \<lparr>items = [''pwa-install-dismissed'' \<mapsto> v], getItem_throws = None, setItem_throws = None\<rparr>"

definition in_browser :: platform_info where
  "in_browser = \<lparr>matchMedia_standalone = False, navigator_standalone = None\<rparr>"

definition in_standalone :: platform_info where
  "in_standalone = \<lparr>matchMedia_standalone = True, navigator_standalone = None\<rparr>"

definition in_ios_standalone :: platform_info where
  "in_ios_standalone = \<lparr>matchMedia_standalone = False, navigator_standalone = Some True\<rparr>"

definition showing :: "BeforeInstallPromptEvent \<Rightarrow> storage \<Rightarrow> world" where
  "showing e ls =
     \<lparr>deferredPrompt = Some e, showInstallBanner = True, isInstalled = False,
      localStorage = ls, console = [],
      listeners = [(''beforeinstallprompt'', HandleBeforeInstallPrompt),
                   (''appinstalled'', HandleAppInstalled)],
      prompted = []\<rparr>"

definition repo :: "string \<Rightarrow> int \<Rightarrow> Repository" where
  "repo n stars =
     \<lparr>repo_id = 1, name = n, description = None, html_url = [], stargazers_count = stars,
      forks_count = 0, language = None, topics = [], updated_at = [], pushed_at = []\<rparr>"

definition boringcode :: Organization where
  "boringcode =
     \<lparr>login = ''boringcode-dev'', org_name = ''BoringCode'', org_description = None,
      avatar_url = [], org_html_url = [], public_repos = 3\<rparr>"

definition api_with :: "Repository list \<Rightarrow> remote" where
  "api_with rs =
     \<lparr>org_fetch = Resolved \<lparr>ok = True, json = Resolved boringcode\<rparr>,
      repos_fetch = Resolved \<lparr>ok = True, json = Resolved rs\<rparr>\<rparr>"


section \<open>Auxiliary facts\<close>

subsection \<open>Library functions\<close>

lemma includes_iff: "str_includes s p \<longleftrightarrow> (\<exists>a b. s = a @ p @ b)"
proof (induction s)
  case Nil
  then show ?case by simp
next
  case (Cons c cs)
  show ?case
  proof
    assume "str_includes (c # cs) p"
    then consider "take (length p) (c # cs) = p" | "str_includes cs p" by auto
    then show "\<exists>a b. c # cs = a @ p @ b"
    proof cases
      case 1
      then have "c # cs = [] @ p @ drop (length p) (c # cs)"
        by (metis append_Nil append_take_drop_id)
      then show ?thesis by blast
    next
      case 2
      then obtain a b where "cs = a @ p @ b" using Cons.IH by blast
      then have "c # cs = (c # a) @ p @ b" by simp
      then show ?thesis by blast
    qed
  next
    assume "\<exists>a b. c # cs = a @ p @ b"
    then obtain a b where ab: "c # cs = a @ p @ b" by blast
    show "str_includes (c # cs) p"
    proof (cases a)
      case Nil
      then have "take (length p) (c # cs) = p" using ab by simp
      then show ?thesis by simp
    next
      case (Cons x a')
      then have "cs = a' @ p @ b" using ab by simp
      then have "str_includes cs p" using Cons.IH by blast
      then show ?thesis by simp
    qed
  qed
qed

lemma mset_insert_by: "mset (insert_by cmp x xs) = add_mset x (mset xs)"
  by (induction xs) auto

lemma mset_sort_by: "mset (sort_by cmp xs) = mset xs"
  by (induction xs) (auto simp: mset_insert_by)

lemma set_insert_by: "set (insert_by cmp x xs) = insert x (set xs)"
  by (induction xs) auto

lemma sorted_insert_by:
  "sorted_wrt (\<lambda>a b. f b \<le> f a) xs \<Longrightarrow>
   sorted_wrt (\<lambda>a b. f b \<le> f a) (insert_by (\<lambda>a b. f b - f a) x xs)"
  by (induction xs) (auto simp: set_insert_by)

lemma sorted_sort_by:
  "sorted_wrt (\<lambda>a b. f b \<le> f a) (sort_by (\<lambda>a b. f b - f a) xs)"
  by (induction xs) (auto simp: sorted_insert_by)

subsection \<open>Steps and runs\<close>

lemma listeners_step: "listeners (step ev w) = listeners w"
  by (cases ev)
     (auto simp: handleBeforeInstallPrompt_def handleAppInstalled_def handleInstallClick_def
                 handleDismiss_def call_def console_error_def Let_def
           split: option.splits sum.splits promise.splits handler.splits)

lemma isInstalled_handlers:
  "isInstalled w \<Longrightarrow>
   isInstalled (snd (handleBeforeInstallPrompt e w)) \<and>
   isInstalled (snd (handleInstallClick w)) \<and>
   isInstalled (snd (handleDismiss w))"
  by (auto simp: handleBeforeInstallPrompt_def handleInstallClick_def handleDismiss_def
                 console_error_def Let_def
           split: option.splits sum.splits promise.splits)

lemma isInstalled_step: "isInstalled w \<Longrightarrow> isInstalled (step ev w)"
  by (cases ev)
     (auto simp: handleBeforeInstallPrompt_def handleAppInstalled_def handleInstallClick_def
                 handleDismiss_def call_def console_error_def Let_def
           split: option.splits sum.splits promise.splits handler.splits)

lemma run_Nil: "run [] w = w"
  by (simp add: run_def)

lemma run_Cons: "run (ev # evs) w = run evs (step ev w)"
  by (simp add: run_def)

lemma listeners_run: "listeners (run evs w) = listeners w"
  by (induction evs arbitrary: w) (simp_all add: run_Nil run_Cons listeners_step)

lemma isInstalled_run: "isInstalled w \<Longrightarrow> isInstalled (run evs w)"
  by (induction evs arbitrary: w) (simp_all add: run_Nil run_Cons isInstalled_step)

lemma step_inert: "listeners w = [] \<Longrightarrow> render w = None \<Longrightarrow> step ev w = w"
  by (cases ev) auto

lemma run_inert: "listeners w = [] \<Longrightarrow> render w = None \<Longrightarrow> run evs w = w"
  by (induction evs) (simp_all add: run_Nil run_Cons step_inert)

lemma no_handle_step:
  "deferredPrompt w = None \<Longrightarrow> (\<forall>e. ev \<noteq> BeforeInstallPrompt e) \<Longrightarrow> deferredPrompt (step ev w) = None"
  by (cases ev) (auto simp: handleAppInstalled_def render_def)

lemma no_handle_run:
  "deferredPrompt w = None \<Longrightarrow> (\<forall>e. BeforeInstallPrompt e \<notin> set evs) \<Longrightarrow> deferredPrompt (run evs w) = None"
proof (induction evs arbitrary: w)
  case Nil
  then show ?case by (simp add: run_Nil)
next
  case (Cons ev evs)
  have "deferredPrompt (step ev w) = None"
    using Cons.prems by (intro no_handle_step) auto
  then show ?case using Cons by (simp add: run_Cons)
qed

lemma idle_run:
  "deferredPrompt w = None \<Longrightarrow> (\<forall>e. BeforeInstallPrompt e \<notin> set evs) \<Longrightarrow>
   AppInstalled \<notin> set evs \<Longrightarrow> run evs w = w"
proof (induction evs)
  case Nil
  then show ?case by (simp add: run_Nil)
next
  case (Cons ev evs)
  then obtain i where "ev = Click i" by (cases ev) auto
  then have "step ev w = w" using Cons.prems(1) by (simp add: render_def)
  then show ?case using Cons by (simp add: run_Cons)
qed

lemma handleInstallClick_failure:
  "deferredPrompt w = Some dp \<Longrightarrow>
   prompt dp = Rejected err \<or> (prompt dp = Resolved () \<and> userChoice dp = Rejected err) \<Longrightarrow>
   handleInstallClick w =
     (Completed,
      w\<lparr>prompted := prompted w @ [dp],
        console := console w @ [(''Error during PWA installation:'', err)]\<rparr>)"
  by (auto simp: handleInstallClick_def console_error_def Let_def)


section \<open>The claims\<close>

subsection \<open>The install request\<close>

text \<open>
  \<^bold>\<open>C1.\<close> The install request \<open>handleInstallClick\<close>: with no handle it returns at once and
  the world is what it was. With a handle whose \<open>prompt()\<close> and \<open>userChoice\<close> both resolve,
  it completes with the handle cleared, and neither \<open>isInstalled\<close> nor the storage touched;
  on the outcome \<open>accepted\<close> the banner flag is false afterwards, on \<open>dismissed\<close> it is
  what it was before the call.
\<close>

theorem install_click_outcomes:
  "(deferredPrompt w = None \<longrightarrow> handleInstallClick w = (Completed, w)) \<and>
   (\<forall>dp choice.
      deferredPrompt w = Some dp \<and> prompt dp = Resolved () \<and> userChoice dp = Resolved choice \<longrightarrow>
        fst (handleInstallClick w) = Completed \<and>
        deferredPrompt (snd (handleInstallClick w)) = None \<and>
        isInstalled (snd (handleInstallClick w)) = isInstalled w \<and>
        localStorage (snd (handleInstallClick w)) = localStorage w \<and>
        (outcome choice = Accepted \<longrightarrow> showInstallBanner (snd (handleInstallClick w)) = False) \<and>
        (outcome choice = Dismissed \<longrightarrow>
           showInstallBanner (snd (handleInstallClick w)) = showInstallBanner w))"
  by (auto simp: handleInstallClick_def Let_def)

theorem install_click_outcomes_witness:
  "handleInstallClick (initial empty_storage) = (Completed, initial empty_storage) \<and>
   deferredPrompt (snd (handleInstallClick (showing (prompt_event Accepted) empty_storage))) = None \<and>
   showInstallBanner (snd (handleInstallClick (showing (prompt_event Accepted) empty_storage))) = False \<and>
   deferredPrompt (snd (handleInstallClick (showing (prompt_event Dismissed) empty_storage))) = None \<and>
   showInstallBanner (snd (handleInstallClick (showing (prompt_event Dismissed) empty_storage))) = True"
  using install_click_outcomes [of "initial empty_storage"]
        install_click_outcomes [of "showing (prompt_event Accepted) empty_storage"]
        install_click_outcomes [of "showing (prompt_event Dismissed) empty_storage"]
  by (simp add: initial_def showing_def prompt_event_def)

text \<open>
  \<^bold>\<open>C2.\<close> A failure of the trigger/await sequence is caught and logged, does not
  propagate, and leaves the banner flag as it was (\<open>handleInstallClick_failure\<close> above, for
  every failure). The handle is to be cleared all the same, as both outcome paths and
  \<open>handleAppInstalled\<close> clear it; but \<open>setDeferredPrompt(null)\<close> stands inside the \<open>try\<close>
  block after both awaits, so a failure skips it. On a handle whose \<open>prompt()\<close> rejects,
  with the banner on screen: the handler completes and logs, the banner flag is
  unchanged, and the handle is still in the state, where the \<open>dismissed\<close> outcome and the
  installed confirmation leave none; a second click calls \<open>prompt()\<close> on the same handle
  again.
\<close>

theorem install_click_failure_keeps_handle:
  "deferredPrompt (showing failing_event empty_storage) = Some failing_event \<and>
   prompt failing_event = Rejected (ErrorObj ''NotAllowedError'') \<and>
   fst (handleInstallClick (showing failing_event empty_storage)) = Completed \<and>
   console (snd (handleInstallClick (showing failing_event empty_storage))) =
     [(''Error during PWA installation:'', ErrorObj ''NotAllowedError'')] \<and>
   showInstallBanner (snd (handleInstallClick (showing failing_event empty_storage))) =
     showInstallBanner (showing failing_event empty_storage) \<and>
   deferredPrompt (snd (handleInstallClick (showing failing_event empty_storage))) =
     Some failing_event \<and>
   deferredPrompt (snd (handleInstallClick (showing failing_event empty_storage))) \<noteq> None \<and>
   deferredPrompt (snd (handleInstallClick (showing (prompt_event Dismissed) empty_storage))) = None \<and>
   deferredPrompt (snd (handleAppInstalled (showing failing_event empty_storage))) = None \<and>
   prompted (snd (handleInstallClick (snd (handleInstallClick (showing failing_event empty_storage))))) =
     [failing_event, failing_event]"
  by (simp add: handleInstallClick_def handleAppInstalled_def showing_def failing_event_def
                prompt_event_def console_error_def)

subsection \<open>Dismissing the banner\<close>

text \<open>
  \<^bold>\<open>C3.\<close> \<open>handleDismiss\<close>, from any state, leaves the banner flag false, also when the
  storage write throws, since the setter is called before the write. When the write
  succeeds the handler completes and the item stored under \<open>pwa-install-dismissed\<close> is
  \<open>true\<close>. When the write throws there is no \<open>try\<close> around it: the exception leaves the
  handler and the storage is what it was, so no record is persisted. The closed fact
  after the theorem shows this on a storage whose quota is exhausted.
\<close>

theorem dismiss_effect:
  "showInstallBanner (snd (handleDismiss w)) = False \<and>
   (\<forall>ls. setItem (localStorage w) ''pwa-install-dismissed'' ''true'' = Inr ls \<longrightarrow>
      handleDismiss w = (Completed, w\<lparr>showInstallBanner := False, localStorage := ls\<rparr>) \<and>
      items ls ''pwa-install-dismissed'' = Some ''true'') \<and>
   (\<forall>err. setItem (localStorage w) ''pwa-install-dismissed'' ''true'' = Inl err \<longrightarrow>
      handleDismiss w = (Raised err, w\<lparr>showInstallBanner := False\<rparr>) \<and>
      localStorage (snd (handleDismiss w)) = localStorage w)"
  by (auto simp: handleDismiss_def setItem_def Let_def split: option.splits)

theorem dismiss_effect_witness:
  "showInstallBanner (snd (handleDismiss (showing (prompt_event Accepted) empty_storage))) = False \<and>
   fst (handleDismiss (showing (prompt_event Accepted) empty_storage)) = Completed \<and>
   items (localStorage (snd (handleDismiss (showing (prompt_event Accepted) empty_storage))))
     ''pwa-install-dismissed'' = Some ''true'' \<and>
   showInstallBanner (snd (handleDismiss (showing (prompt_event Accepted) full_storage))) = False \<and>
   fst (handleDismiss (showing (prompt_event Accepted) full_storage)) =
     Raised (ErrorObj ''QuotaExceededError'') \<and>
   localStorage (snd (handleDismiss (showing (prompt_event Accepted) full_storage))) = full_storage"
  using dismiss_effect [of "showing (prompt_event Accepted) empty_storage"]
        dismiss_effect [of "showing (prompt_event Accepted) full_storage"]
  by (simp add: setItem_def empty_storage_def full_storage_def showing_def)

theorem dismiss_write_throws_counterexample:
  "setItem full_storage ''pwa-install-dismissed'' ''true'' = Inl (ErrorObj ''QuotaExceededError'') \<and>
   fst (handleDismiss (showing (prompt_event Accepted) full_storage)) =
     Raised (ErrorObj ''QuotaExceededError'') \<and>
   items (localStorage (snd (handleDismiss (showing (prompt_event Accepted) full_storage))))
     ''pwa-install-dismissed'' = None \<and>
   items (localStorage (snd (handleDismiss (showing (prompt_event Accepted) full_storage))))
     ''pwa-install-dismissed'' \<noteq> Some ''true''"
  by (simp add: handleDismiss_def setItem_def full_storage_def showing_def)

subsection \<open>The installability signal\<close>




text \<open>
  \<^bold>\<open>C10.\<close> The check of the dismissal record is by truthiness. When the read of
  \<open>pwa-install-dismissed\<close> returns a non-empty string, whatever it is, the signal leaves
  the banner flag as it was; when it returns \<open>null\<close> or the empty string, the flag is true
  afterwards. So from a hidden banner the flag becomes true, and the banner is rendered
  (when the app is not installed), exactly when the stored value is absent or empty.
\<close>

theorem dismissal_check_truthiness:
  "getItem (localStorage w) ''pwa-install-dismissed'' = Inr v \<Longrightarrow>
   (\<forall>s. v = Some s \<and> s \<noteq> [] \<longrightarrow>
      showInstallBanner (snd (handleBeforeInstallPrompt e w)) = showInstallBanner w) \<and>
   (v = None \<or> v = Some [] \<longrightarrow> showInstallBanner (snd (handleBeforeInstallPrompt e w))) \<and>
   (\<not> showInstallBanner w \<longrightarrow>
      (showInstallBanner (snd (handleBeforeInstallPrompt e w)) \<longleftrightarrow> v = None \<or> v = Some [])) \<and>
   (\<not> showInstallBanner w \<and> \<not> isInstalled w \<longrightarrow>
      (render (snd (handleBeforeInstallPrompt e w)) = Some banner \<longleftrightarrow> v = None \<or> v = Some []))"
  by (auto simp: handleBeforeInstallPrompt_def truthy_def render_def Let_def split: option.splits)

theorem dismissal_check_truthiness_witness:
  "\<not> showInstallBanner
     (snd (handleBeforeInstallPrompt (prompt_event Accepted) (mount in_browser (stored ''false'')))) \<and>
   render (snd (handleBeforeInstallPrompt (prompt_event Accepted) (mount in_browser (stored ''false'')))) \<noteq>
     Some banner \<and>
   showInstallBanner
     (snd (handleBeforeInstallPrompt (prompt_event Accepted) (mount in_browser (stored [])))) \<and>
   render (snd (handleBeforeInstallPrompt (prompt_event Accepted) (mount in_browser (stored [])))) =
     Some banner \<and>
   showInstallBanner
     (snd (handleBeforeInstallPrompt (prompt_event Accepted) (mount in_browser empty_storage)))"
  using dismissal_check_truthiness [of "mount in_browser (stored ''false'')" "Some ''false''"
          "prompt_event Accepted"]
        dismissal_check_truthiness [of "mount in_browser (stored [])" "Some []" "prompt_event Accepted"]
        dismissal_check_truthiness [of "mount in_browser empty_storage" None "prompt_event Accepted"]
  by (simp add: getItem_def mount_def useEffect_def initial_def in_browser_def
                empty_storage_def stored_def)

subsection \<open>The installed confirmation\<close>

text \<open>
  \<^bold>\<open>C5.\<close> \<open>handleAppInstalled\<close> sets \<open>isInstalled\<close>, hides the banner and clears the handle.
  After any run of events from mounting, the state after an \<open>appinstalled\<close> event has
  \<open>isInstalled\<close> true, the banner flag false and no handle, and \<open>isInstalled\<close> is true
  after every further run of events: installability signals, install requests, dismissals.
  Each of the other handlers, run on any state, keeps \<open>isInstalled\<close> true.
\<close>

theorem installed_terminal:
  "snd (handleAppInstalled w0) =
     w0\<lparr>isInstalled := True, showInstallBanner := False, deferredPrompt := None\<rparr> \<and>
   isInstalled (step AppInstalled (run evs (mount p ls))) \<and>
   \<not> showInstallBanner (step AppInstalled (run evs (mount p ls))) \<and>
   deferredPrompt (step AppInstalled (run evs (mount p ls))) = None \<and>
   isInstalled (run evs' (step AppInstalled (run evs (mount p ls)))) \<and>
   (isInstalled w0 \<longrightarrow>
      isInstalled (snd (handleBeforeInstallPrompt e w0)) \<and>
      isInstalled (snd (handleInstallClick w0)) \<and>
      isInstalled (snd (handleDismiss w0)))"
proof (cases "matchMedia_standalone p \<or> navigator_standalone p = Some True")
  case True
  then have m: "listeners (mount p ls) = []" "render (mount p ls) = None"
    "isInstalled (mount p ls)" "\<not> showInstallBanner (mount p ls)" "deferredPrompt (mount p ls) = None"
    by (auto simp: mount_def useEffect_def initial_def render_def)
  then have "run evs (mount p ls) = mount p ls" by (simp add: run_inert)
  moreover have "step AppInstalled (mount p ls) = mount p ls" using m by (simp add: step_inert)
  ultimately show ?thesis
    using m isInstalled_handlers [of w0 e] by (simp add: isInstalled_run handleAppInstalled_def)
next
  case False
  then have "(''appinstalled'', HandleAppInstalled) \<in> set (listeners (mount p ls))"
    by (simp add: mount_def useEffect_def initial_def)
  then have "(''appinstalled'', HandleAppInstalled) \<in> set (listeners (run evs (mount p ls)))"
    by (simp add: listeners_run)
  then have s: "step AppInstalled (run evs (mount p ls)) = snd (handleAppInstalled (run evs (mount p ls)))"
    by simp
  have "isInstalled (step AppInstalled (run evs (mount p ls)))"
    unfolding s by (simp add: handleAppInstalled_def)
  then have "isInstalled (run evs' (step AppInstalled (run evs (mount p ls))))"
    by (rule isInstalled_run)
  then show ?thesis
    unfolding s using isInstalled_handlers [of w0 e] by (simp add: handleAppInstalled_def)
qed

theorem installed_terminal_witness:
  "isInstalled (step AppInstalled
     (run [BeforeInstallPrompt (prompt_event Accepted)] (mount in_browser empty_storage))) \<and>
   \<not> showInstallBanner (step AppInstalled
     (run [BeforeInstallPrompt (prompt_event Accepted)] (mount in_browser empty_storage))) \<and>
   deferredPrompt (step AppInstalled
     (run [BeforeInstallPrompt (prompt_event Accepted)] (mount in_browser empty_storage))) = None \<and>
   isInstalled (run [BeforeInstallPrompt (prompt_event Dismissed), Click 0, Click 1]
     (step AppInstalled
       (run [BeforeInstallPrompt (prompt_event Accepted)] (mount in_browser empty_storage))))"
  using installed_terminal [of "initial empty_storage"
          "[BeforeInstallPrompt (prompt_event Accepted)]" in_browser empty_storage
          "[BeforeInstallPrompt (prompt_event Dismissed), Click 0, Click 1]"
          "prompt_event Accepted"]
  by simp

subsection \<open>Rendering\<close>

text \<open>
  \<^bold>\<open>C6.\<close> The component renders nothing exactly when \<open>isInstalled\<close> is true, or the
  banner flag is false, or there is no handle; otherwise it renders the banner. The
  banner has exactly three buttons: \<open>Install\<close>, bound to \<open>handleInstallClick\<close>, and
  \<open>Not now\<close> and the close icon, both bound to \<open>handleDismiss\<close>. \<open>handleDismiss\<close> always
  leaves the banner flag false, and \<open>handleInstallClick\<close> does on an accepted prompt. Only
  \<open>handleInstallClick\<close> calls \<open>prompt()\<close>: \<open>handleDismiss\<close> neither prompts nor touches
  the handle.
\<close>

theorem render_contract:
  "(render w = None \<longleftrightarrow> isInstalled w \<or> \<not> showInstallBanner w \<or> deferredPrompt w = None) \<and>
   (render w = None \<or> render w = Some banner) \<and>
   buttons banner =
     [Button HandleInstallClick None [Text ''Install''],
      Button HandleDismiss None [Text ''Not now''],
      Button HandleDismiss (Some ''Dismiss install prompt'') [XIcon]] \<and>
   map onClick (buttons banner) = [Some HandleInstallClick, Some HandleDismiss, Some HandleDismiss] \<and>
   call HandleInstallClick w = handleInstallClick w \<and>
   call HandleDismiss w = handleDismiss w \<and>
   showInstallBanner (snd (handleDismiss w)) = False \<and>
   prompted (snd (handleDismiss w)) = prompted w \<and>
   deferredPrompt (snd (handleDismiss w)) = deferredPrompt w \<and>
   (\<forall>dp. deferredPrompt w = Some dp \<longrightarrow>
      prompted (snd (handleInstallClick w)) = prompted w @ [dp] \<and>
      (\<forall>choice. prompt dp = Resolved () \<and> userChoice dp = Resolved choice \<and>
                outcome choice = Accepted \<longrightarrow>
         showInstallBanner (snd (handleInstallClick w)) = False))"
  by (auto simp: render_def banner_def call_def handleDismiss_def handleInstallClick_def
                 console_error_def Let_def
           split: sum.splits promise.splits)

theorem render_contract_witness:
  "render (showing (prompt_event Accepted) empty_storage) = Some banner \<and>
   render (initial empty_storage) = None \<and>
   showInstallBanner (snd (call HandleDismiss (showing (prompt_event Accepted) empty_storage))) = False \<and>
   showInstallBanner (snd (call HandleInstallClick (showing (prompt_event Accepted) empty_storage))) = False \<and>
   prompted (snd (call HandleInstallClick (showing (prompt_event Accepted) empty_storage))) =
     [prompt_event Accepted] \<and>
   prompted (snd (call HandleDismiss (showing (prompt_event Accepted) empty_storage))) = []"
  using render_contract [of "showing (prompt_event Accepted) empty_storage"]
        render_contract [of "initial empty_storage"]
  by (auto simp add: showing_def initial_def prompt_event_def)

text \<open>
  \<^bold>\<open>C9.\<close> After an install request whose prompt resolved, with either outcome, the
  handle is cleared and the component renders nothing, although after \<open>dismissed\<close> the
  banner flag is what it was (true, when the banner was on screen). It goes on rendering
  nothing over every run of events without an installability signal. It does not do so
  for the rest of the session: after \<open>dismissed\<close>, from a state with the banner flag
  true, the app not installed and the listener registered, the next installability
  signal (after any clicks, which have no effect meanwhile) runs
  \<open>handleBeforeInstallPrompt\<close>, which stores the new handle, and the banner is rendered
  again, whatever the storage holds. The closed fact after the theorem is such a run
  from mounting: signal, install request dismissed, signal.
\<close>

theorem install_click_hides_banner:
  "deferredPrompt w = Some dp \<Longrightarrow> prompt dp = Resolved () \<Longrightarrow> userChoice dp = Resolved choice \<Longrightarrow>
   render (snd (handleInstallClick w)) = None \<and>
   (outcome choice = Dismissed \<longrightarrow>
      showInstallBanner (snd (handleInstallClick w)) = showInstallBanner w) \<and>
   (\<forall>evs. (\<forall>e. BeforeInstallPrompt e \<notin> set evs) \<longrightarrow>
      render (run evs (snd (handleInstallClick w))) = None) \<and>
   (outcome choice = Dismissed \<and> showInstallBanner w \<and> \<not> isInstalled w \<and>
    (''beforeinstallprompt'', HandleBeforeInstallPrompt) \<in> set (listeners w) \<longrightarrow>
      (\<forall>evs e'. (\<forall>e. BeforeInstallPrompt e \<notin> set evs) \<and> AppInstalled \<notin> set evs \<longrightarrow>
         step (BeforeInstallPrompt e') (run evs (snd (handleInstallClick w))) =
           snd (handleBeforeInstallPrompt e' (snd (handleInstallClick w))) \<and>
         deferredPrompt (step (BeforeInstallPrompt e') (run evs (snd (handleInstallClick w)))) =
           Some (e'\<lparr>defaultPrevented := True\<rparr>) \<and>
         render (step (BeforeInstallPrompt e') (run evs (snd (handleInstallClick w)))) =
           Some banner))"
proof -
  assume a: "deferredPrompt w = Some dp" "prompt dp = Resolved ()" "userChoice dp = Resolved choice"
  let ?w = "snd (handleInstallClick w)"
  have h: "deferredPrompt ?w = None"
    using a by (simp add: handleInstallClick_def Let_def)
  have r: "\<And>v. deferredPrompt v = None \<Longrightarrow> render v = None" by (simp add: render_def)
  have quiet: "\<forall>evs. (\<forall>e. BeforeInstallPrompt e \<notin> set evs) \<longrightarrow> render (run evs ?w) = None"
    using h by (simp add: no_handle_run r)
  have flag: "outcome choice = Dismissed \<longrightarrow> showInstallBanner ?w = showInstallBanner w"
    using a by (simp add: handleInstallClick_def Let_def)
  have again: "step (BeforeInstallPrompt e') (run evs ?w) = snd (handleBeforeInstallPrompt e' ?w) \<and>
      deferredPrompt (step (BeforeInstallPrompt e') (run evs ?w)) = Some (e'\<lparr>defaultPrevented := True\<rparr>) \<and>
      render (step (BeforeInstallPrompt e') (run evs ?w)) = Some banner"
    if d: "outcome choice = Dismissed" "showInstallBanner w" "\<not> isInstalled w"
          "(''beforeinstallprompt'', HandleBeforeInstallPrompt) \<in> set (listeners w)"
      and q: "\<forall>e. BeforeInstallPrompt e \<notin> set evs" "AppInstalled \<notin> set evs"
    for evs e'
  proof -
    have same: "run evs ?w = ?w" using h q by (simp add: idle_run)
    have w': "showInstallBanner ?w" "\<not> isInstalled ?w" "listeners ?w = listeners w"
      using a d by (simp_all add: handleInstallClick_def Let_def)
    have s: "step (BeforeInstallPrompt e') ?w = snd (handleBeforeInstallPrompt e' ?w)"
      using w' d by simp
    have "deferredPrompt (snd (handleBeforeInstallPrompt e' ?w)) = Some (e'\<lparr>defaultPrevented := True\<rparr>)"
      "showInstallBanner (snd (handleBeforeInstallPrompt e' ?w))"
      "\<not> isInstalled (snd (handleBeforeInstallPrompt e' ?w))"
      using w' by (auto simp: handleBeforeInstallPrompt_def Let_def split: sum.splits)
    then show ?thesis unfolding same s by (simp add: render_def)
  qed
  show ?thesis using h r quiet flag again by blast
qed

theorem install_click_hides_banner_witness:
  "showInstallBanner (snd (handleInstallClick (showing (prompt_event Dismissed) empty_storage))) \<and>
   render (snd (handleInstallClick (showing (prompt_event Dismissed) empty_storage))) = None \<and>
   render (run [Click 0, Click 2]
     (snd (handleInstallClick (showing (prompt_event Dismissed) empty_storage)))) = None \<and>
   render (step (BeforeInstallPrompt (prompt_event Accepted)) (run [Click 0, Click 2]
     (snd (handleInstallClick (showing (prompt_event Dismissed) empty_storage))))) = Some banner"
proof -
  let ?w = "showing (prompt_event Dismissed) empty_storage"
  let ?c = "\<lparr>outcome = Dismissed, platform = ''web''\<rparr>"
  have pre: "deferredPrompt ?w = Some (prompt_event Dismissed)"
    "prompt (prompt_event Dismissed) = Resolved ()"
    "userChoice (prompt_event Dismissed) = Resolved ?c"
    by (simp_all add: showing_def prompt_event_def)
  have st: "outcome ?c = Dismissed" "showInstallBanner ?w" "\<not> isInstalled ?w"
    "(''beforeinstallprompt'', HandleBeforeInstallPrompt) \<in> set (listeners ?w)"
    by (simp_all add: showing_def)
  have ev: "\<forall>e. BeforeInstallPrompt e \<notin> set [Click 0, Click 2]"
    "AppInstalled \<notin> set [Click 0, Click 2]"
    by simp_all
  note t = install_click_hides_banner [OF pre]
  from t have "render (snd (handleInstallClick ?w)) = None" by blast
  moreover from t st have "showInstallBanner (snd (handleInstallClick ?w))" by simp
  moreover from t ev have "render (run [Click 0, Click 2] (snd (handleInstallClick ?w))) = None"
    by blast
  moreover from t st ev
  have "render (step (BeforeInstallPrompt (prompt_event Accepted))
          (run [Click 0, Click 2] (snd (handleInstallClick ?w)))) = Some banner"
    by blast
  ultimately show ?thesis by blast
qed

theorem banner_returns_counterexample:
  "showInstallBanner (run [BeforeInstallPrompt (prompt_event Dismissed), Click 0]
     (mount in_browser empty_storage)) \<and>
   render (run [BeforeInstallPrompt (prompt_event Dismissed), Click 0]
     (mount in_browser empty_storage)) = None \<and>
   render (run [BeforeInstallPrompt (prompt_event Dismissed), Click 0,
                BeforeInstallPrompt (prompt_event Dismissed)]
     (mount in_browser empty_storage)) = Some banner"
  by (simp add: run_def mount_def useEffect_def initial_def in_browser_def empty_storage_def
                prompt_event_def handleBeforeInstallPrompt_def getItem_def truthy_def render_def
                banner_def call_def handleInstallClick_def)

subsection \<open>Starting in standalone mode\<close>

text \<open>
  \<^bold>\<open>C7.\<close> When at mounting the platform reports standalone display mode, or the iOS
  standalone flag is true, the component sets \<open>isInstalled\<close>, registers no listener and
  renders nothing; whatever events follow, the whole state stays what it was after
  mounting, and nothing is rendered.
\<close>

theorem standalone_inert:
  "matchMedia_standalone p \<or> navigator_standalone p = Some True \<Longrightarrow>
   isInstalled (mount p ls) \<and> listeners (mount p ls) = [] \<and> render (mount p ls) = None \<and>
   run evs (mount p ls) = mount p ls \<and> render (run evs (mount p ls)) = None"
proof -
  assume "matchMedia_standalone p \<or> navigator_standalone p = Some True"
  then have m: "listeners (mount p ls) = []" "render (mount p ls) = None" "isInstalled (mount p ls)"
    by (auto simp: mount_def useEffect_def initial_def render_def)
  then have "run evs (mount p ls) = mount p ls" by (simp add: run_inert)
  then show ?thesis using m by simp
qed

theorem standalone_inert_witness:
  "isInstalled (mount in_standalone empty_storage) \<and>
   listeners (mount in_ios_standalone empty_storage) = [] \<and>
   render (mount in_standalone empty_storage) = None \<and>
   run [BeforeInstallPrompt (prompt_event Accepted), Click 0, AppInstalled]
     (mount in_standalone empty_storage) = mount in_standalone empty_storage \<and>
   render (run [BeforeInstallPrompt (prompt_event Accepted), Click 0]
     (mount in_ios_standalone empty_storage)) = None"
  using standalone_inert [of in_standalone empty_storage
          "[BeforeInstallPrompt (prompt_event Accepted), Click 0, AppInstalled]"]
        standalone_inert [of in_ios_standalone empty_storage
          "[BeforeInstallPrompt (prompt_event Accepted), Click 0]"]
  by (simp add: in_standalone_def in_ios_standalone_def)

subsection \<open>The repository list\<close>

text \<open>
  \<^bold>\<open>C8.\<close> The view model derived from the list \<open>reposData\<close> holds exactly the
  repositories of the list whose name does not contain \<open>.github\<close>, each as often as the
  list does, in descending order of \<open>stargazers_count\<close>: every element has at least as
  many stars as every later one, in particular as the next. When both requests succeed
  and the second returns \<open>reposData\<close>, \<open>fetchData\<close> completes with that view model as
  \<open>repos\<close>.
\<close>

theorem view_model_filtered_sorted:
  "mset (filteredRepos reposData) =
     filter_mset (\<lambda>r. \<not> (\<exists>a b. name r = a @ ''.github'' @ b)) (mset reposData) \<and>
   set (filteredRepos reposData) =
     {r. r \<in> set reposData \<and> \<not> (\<exists>a b. name r = a @ ''.github'' @ b)} \<and>
   sorted_wrt (\<lambda>a b. stargazers_count b \<le> stargazers_count a) (filteredRepos reposData) \<and>
   (\<forall>i. Suc i < length (filteredRepos reposData) \<longrightarrow>
      stargazers_count (filteredRepos reposData ! Suc i)
        \<le> stargazers_count (filteredRepos reposData ! i)) \<and>
   (\<forall>orgResponse orgData reposResponse.
      org_fetch api = Resolved orgResponse \<and> ok orgResponse \<and>
      json orgResponse = Resolved orgData \<and>
      repos_fetch api = Resolved reposResponse \<and> ok reposResponse \<and>
      json reposResponse = Resolved reposData \<longrightarrow>
        fst (fetchData api s) = Completed \<and>
        repos (snd (fetchData api s)) = filteredRepos reposData)"
proof -
  let ?stars = "\<lambda>a b. stargazers_count b \<le> stargazers_count a"
  have m: "mset (filteredRepos reposData) =
      filter_mset (\<lambda>r. \<not> (\<exists>a b. name r = a @ ''.github'' @ b)) (mset reposData)"
    by (simp add: filteredRepos_def mset_sort_by includes_iff)
  have "set (filteredRepos reposData) = set_mset (mset (filteredRepos reposData))" by simp
  also have "\<dots> = {r. r \<in> set reposData \<and> \<not> (\<exists>a b. name r = a @ ''.github'' @ b)}"
    unfolding m by auto
  finally have st: "set (filteredRepos reposData) =
      {r. r \<in> set reposData \<and> \<not> (\<exists>a b. name r = a @ ''.github'' @ b)}" .
  have so: "sorted_wrt ?stars (filteredRepos reposData)"
    unfolding filteredRepos_def by (rule sorted_sort_by)
  have adj: "\<forall>i. Suc i < length (filteredRepos reposData) \<longrightarrow>
      stargazers_count (filteredRepos reposData ! Suc i)
        \<le> stargazers_count (filteredRepos reposData ! i)"
    using so by (simp add: sorted_wrt_iff_nth_less)
  have f: "\<forall>orgResponse orgData reposResponse.
      org_fetch api = Resolved orgResponse \<and> ok orgResponse \<and>
      json orgResponse = Resolved orgData \<and>
      repos_fetch api = Resolved reposResponse \<and> ok reposResponse \<and>
      json reposResponse = Resolved reposData \<longrightarrow>
        fst (fetchData api s) = Completed \<and>
        repos (snd (fetchData api s)) = filteredRepos reposData"
    by (simp add: fetchData_def Let_def)
  show ?thesis using m st so adj f by blast
qed

theorem view_model_filtered_sorted_witness:
  "fst (fetchData (api_with [repo ''a'' 1, repo ''.github'' 9, repo ''b'' 5]) GitHubOrg_initial) =
     Completed \<and>
   repos (snd (fetchData (api_with [repo ''a'' 1, repo ''.github'' 9, repo ''b'' 5]) GitHubOrg_initial)) =
     filteredRepos [repo ''a'' 1, repo ''.github'' 9, repo ''b'' 5] \<and>
   filteredRepos [repo ''a'' 1, repo ''.github'' 9, repo ''b'' 5] = [repo ''b'' 5, repo ''a'' 1]"
  using view_model_filtered_sorted [of "[repo ''a'' 1, repo ''.github'' 9, repo ''b'' 5]"
          "api_with [repo ''a'' 1, repo ''.github'' 9, repo ''b'' 5]" GitHubOrg_initial]
  by (simp add: api_with_def filteredRepos_def repo_def)

end
